theory Spec2Isabelle
  imports Main "HOL-Library.AList" "HOL-Library.Multiset"
begin

section \<open>Values of a flattened FHIR record\<close>

text \<open>
  The module \<^verbatim>\<open>cql_result_parser.py\<close> works on Python dictionaries obtained by flattening
  the JSON of a FHIR DSTU2 resource. A dictionary is an association list in insertion
  order; \<open>AList.update\<close> is Python's \<^verbatim>\<open>obj[k] = v\<close> (the value is replaced in place when the
  key exists, the pair is appended otherwise) and \<open>map_of\<close> is the lookup.
  Integers are Python's unbounded integers. The debug flag \<^verbatim>\<open>_TRACE\<close> has its module
  default \<^verbatim>\<open>False\<close>, so the dumps it guards are not part of the model.
\<close>

record pydatetime =
  year :: int
  month :: int
  day :: int
  hour :: int
  minute :: int
  second :: int
  microsecond :: int
  tzinfo :: "int option"  \<comment> \<open>UTC offset in seconds; \<open>None\<close> is a naive datetime\<close>

datatype pyval =
    VNone
  | VBool bool
  | VInt int
  | VStr string
  | VDateTime pydatetime
  | VList "pyval list"
  | VDict "(string \<times> pyval) list"

type_synonym pyobj = "(string \<times> pyval) list"

datatype pyerr =
    NameError
  | KeyError
  | TypeError
  | ValueError
  | AssertionError
  | AttributeError
  | OverflowError
  | ReUnsupported  \<comment> \<open>a pattern outside the fragment of \<^verbatim>\<open>re\<close> modelled below\<close>

text \<open>A statement block running on the dictionary: the outcome and the dictionary it
  leaves behind, also when an exception propagates (the mutation is in place).\<close>

type_synonym 'a exec = "pyobj \<Rightarrow> (pyerr + 'a) \<times> pyobj"

definition exec_bind :: "'a exec \<Rightarrow> ('a \<Rightarrow> 'b exec) \<Rightarrow> 'b exec" where
  "exec_bind m f = (\<lambda>obj. case m obj of
       (Inl e, obj') \<Rightarrow> (Inl e, obj')
     | (Inr a, obj') \<Rightarrow> f a obj')"

definition exec_then :: "'a exec \<Rightarrow> 'b exec \<Rightarrow> 'b exec" where
  "exec_then m n = exec_bind m (\<lambda>_. n)"

definition skip :: "unit exec" where
  "skip = (\<lambda>obj. (Inr (), obj))"

fun for_each :: "'i list \<Rightarrow> ('i \<Rightarrow> unit exec) \<Rightarrow> unit exec" where
  "for_each [] body = skip"
| "for_each (i # is) body = exec_then (body i) (for_each is body)"

section \<open>Characters, digits and the string helpers\<close>

definition is_digit :: "char \<Rightarrow> bool" where
  "is_digit c = (c \<in> set ''0123456789'')"

definition is_word :: "char \<Rightarrow> bool" where
  "is_word c = (c \<in> set ''abcdefghijklmnopqrstuvwxyzABCDEFGHIJKLMNOPQRSTUVWXYZ0123456789_'')"

definition digit_val :: "char \<Rightarrow> int" where
  "digit_val c = int (of_char c) - 48"

text \<open>Python's \<^verbatim>\<open>int(s)\<close> on a string of decimal digits.\<close>

definition int_of_digits :: "string \<Rightarrow> int" where
  "int_of_digits ds = foldl (\<lambda>a c. 10 * a + digit_val c) 0 ds"

fun strip_prefix :: "string \<Rightarrow> string \<Rightarrow> string option" where
  "strip_prefix [] s = Some s"
| "strip_prefix (p # ps) [] = None"
| "strip_prefix (p # ps) (c # cs) = (if p = c then strip_prefix ps cs else None)"

text \<open>Python's \<^verbatim>\<open>'{0}'.format(i)\<close> for a non-negative integer: its decimal digits.\<close>

fun str_of_nat :: "nat \<Rightarrow> string" where
  "str_of_nat n =
     (if n < 10 then [char_of (48 + n)]
      else str_of_nat (n div 10) @ [char_of (48 + n mod 10)])"

declare str_of_nat.simps [simp del]

section \<open>The regular expression of the list-length inference\<close>

text \<open>
  \<^verbatim>\<open>_set_list_length\<close> builds the pattern
  \<^verbatim>\<open>r'\A' + prefix_str + r'_(?P<num>\d+)_?'\<close> and applies \<^verbatim>\<open>re.match\<close> to every key. The prefix
  is not escaped, so it is read as a regular expression. The fragment modelled here is the
  one the module's own prefixes use: word characters, each optionally followed by a counted
  repetition \<^verbatim>\<open>{n}\<close> (the un-interpolated templates such as
  \<^verbatim>\<open>'reasonNotGiven_{0}_coding'\<close> contain \<^verbatim>\<open>_{0}\<close>, an underscore repeated zero times).
  Any other prefix gives \<open>None\<close>. Keys and digits are ASCII.
\<close>

function parse_atoms :: "string \<Rightarrow> (char \<times> nat) list option" where
  "parse_atoms [] = Some []"
| "parse_atoms (c # cs) =
     (if \<not> is_word c then None
      else if take 1 cs = ''{'' then
        (let n = takeWhile is_digit (tl cs); r = dropWhile is_digit (tl cs) in
         if n = [] \<or> 4294967295 \<le> int_of_digits n then None
         else if take 1 r \<noteq> ''}'' \<or> take 1 (tl r) = ''{'' then None
         else map_option ((#) (c, nat (int_of_digits n))) (parse_atoms (tl r)))
      else map_option ((#) (c, 1)) (parse_atoms cs))"
  by pat_completeness auto
termination
proof (relation "measure length")
  fix c :: char and cs :: string and x xa :: string
  assume "xa = dropWhile is_digit (tl cs)"
  moreover have "length (dropWhile is_digit (tl cs)) \<le> length (tl cs)"
    by (rule length_dropWhile_le)
  ultimately show "(tl xa, c # cs) \<in> measure length"
    by simp
qed simp_all

text \<open>Matching the atoms at the start of a key: each character exactly its count of times.\<close>

fun match_atoms :: "(char \<times> nat) list \<Rightarrow> string \<Rightarrow> string option" where
  "match_atoms [] s = Some s"
| "match_atoms ((c, n) # as) s =
     (case strip_prefix (replicate n c) s of
        None \<Rightarrow> None
      | Some r \<Rightarrow> match_atoms as r)"

text \<open>The rest of the pattern, \<^verbatim>\<open>_(?P<num>\d+)_?\<close>: an underscore, then the longest run of
  digits (greedy, and the optional underscore after it may match nothing, so no
  backtracking happens); the result is \<^verbatim>\<open>int(match.group('num'))\<close>.\<close>

definition match_num :: "string \<Rightarrow> int option" where
  "match_num s =
     (case strip_prefix ''_'' s of
        None \<Rightarrow> None
      | Some r \<Rightarrow>
          (if takeWhile is_digit r = [] then None
           else Some (int_of_digits (takeWhile is_digit r))))"

definition re_match_num :: "(char \<times> nat) list \<Rightarrow> string \<Rightarrow> int option" where
  "re_match_num atoms k =
     (case match_atoms atoms k of None \<Rightarrow> None | Some r \<Rightarrow> match_num r)"

section \<open>List-length inference\<close>

text \<open>The loop over \<^verbatim>\<open>obj.items()\<close>: \<open>max_num\<close> is \<open>None\<close> until a key matches.\<close>

fun scan_keys :: "(char \<times> nat) list \<Rightarrow> string list \<Rightarrow> int option \<Rightarrow> int option" where
  "scan_keys atoms [] max_num = max_num"
| "scan_keys atoms (k # ks) max_num =
     (case re_match_num atoms k of
        None \<Rightarrow> scan_keys atoms ks max_num
      | Some num \<Rightarrow>
          (let m0 = (case max_num of None \<Rightarrow> 0 | Some m \<Rightarrow> m) in
           scan_keys atoms ks (Some (if num > m0 then num else m0))))"

definition set_list_length :: "pyobj \<Rightarrow> string \<Rightarrow> (pyerr + int) \<times> pyobj" where
  "set_list_length obj prefix_str =
     (case parse_atoms prefix_str of
        None \<Rightarrow> (Inl ReUnsupported, obj)
      | Some atoms \<Rightarrow>
          (case scan_keys atoms (map fst obj) None of
             None \<Rightarrow> (Inr 0, obj)
           | Some max_num \<Rightarrow>
               (let length = max_num + 1 in
                (Inr length, AList.update (''len_'' @ prefix_str) (VInt length) obj))))"

section \<open>Datetime normalisation\<close>

text \<open>
  The collaborator \<^verbatim>\<open>time_finder\<close> is not part of this module. The composition
  \<^verbatim>\<open>time_finder.run\<close>, \<^verbatim>\<open>json.loads\<close> and \<^verbatim>\<open>TimeValue(**the_time)\<close> is a parameter
  \<open>time_finder_run\<close> giving the list of decompositions of a time string; only the
  fields \<^verbatim>\<open>_convert_datetimes\<close> reads are kept. The field \<open>fractional_seconds\<close> holds the
  integer that \<^verbatim>\<open>int(time_obj.fractional_seconds)\<close> evaluates to.
\<close>

record TimeValue =
  hours :: int
  minutes :: int
  seconds :: int
  fractional_seconds :: "int option"
  gmt_delta_sign :: "string option"
  gmt_delta_hours :: "int option"
  gmt_delta_minutes :: "int option"

definition take_digits :: "nat \<Rightarrow> string \<Rightarrow> (string \<times> string) option" where
  "take_digits n s =
     (if n \<le> length s \<and> list_all is_digit (take n s) then Some (take n s, drop n s) else None)"

text \<open>The part \<^verbatim>\<open>\d\d:\d\d:\d\d[-+\.Z\d:]*\<close> of \<^verbatim>\<open>_str_datetime\<close>, up to the end of the string.\<close>

definition is_time_str :: "string \<Rightarrow> bool" where
  "is_time_str t =
     (case take_digits 2 t of None \<Rightarrow> False | Some (_, t1) \<Rightarrow>
      case strip_prefix '':'' t1 of None \<Rightarrow> False | Some t2 \<Rightarrow>
      case take_digits 2 t2 of None \<Rightarrow> False | Some (_, t3) \<Rightarrow>
      case strip_prefix '':'' t3 of None \<Rightarrow> False | Some t4 \<Rightarrow>
      case take_digits 2 t4 of None \<Rightarrow> False | Some (_, t5) \<Rightarrow>
        list_all (\<lambda>c. c \<in> set ''-+.Z0123456789:'') t5)"

text \<open>\<^verbatim>\<open>_regex_datetime.match(v)\<close>: the groups year, month and day as integers and the
  group \<open>time\<close>, \<open>None\<close> when the optional part is absent.\<close>

definition match_datetime :: "string \<Rightarrow> (int \<times> int \<times> int \<times> string option) option" where
  "match_datetime s =
     (case take_digits 4 s of None \<Rightarrow> None | Some (y, s1) \<Rightarrow>
      case strip_prefix ''-'' s1 of None \<Rightarrow> None | Some s2 \<Rightarrow>
      case take_digits 2 s2 of None \<Rightarrow> None | Some (mo, s3) \<Rightarrow>
      case strip_prefix ''-'' s3 of None \<Rightarrow> None | Some s4 \<Rightarrow>
      case take_digits 2 s4 of None \<Rightarrow> None | Some (d, s5) \<Rightarrow>
        if s5 = [] then Some (int_of_digits y, int_of_digits mo, int_of_digits d, None)
        else case strip_prefix ''T'' s5 of
               None \<Rightarrow> None
             | Some t \<Rightarrow>
                 if is_time_str t
                 then Some (int_of_digits y, int_of_digits mo, int_of_digits d, Some t)
                 else None)"

text \<open>The constructors of Python's \<^verbatim>\<open>datetime\<close> module, with the range checks that make
  them raise.\<close>

definition is_leap :: "int \<Rightarrow> bool" where
  "is_leap y = (y mod 4 = 0 \<and> (y mod 100 \<noteq> 0 \<or> y mod 400 = 0))"

definition days_in_month :: "int \<Rightarrow> int \<Rightarrow> int" where
  "days_in_month y m =
     (if m = 2 then (if is_leap y then 29 else 28)
      else if m = 4 \<or> m = 6 \<or> m = 9 \<or> m = 11 then 30 else 31)"

definition py_datetime ::
    "int \<Rightarrow> int \<Rightarrow> int \<Rightarrow> int \<Rightarrow> int \<Rightarrow> int \<Rightarrow> int \<Rightarrow> int option \<Rightarrow> pyerr + pydatetime" where
  "py_datetime y mo d h mi s us tz =
     (if 1 \<le> y \<and> y \<le> 9999 \<and> 1 \<le> mo \<and> mo \<le> 12 \<and> 1 \<le> d \<and> d \<le> days_in_month y mo
         \<and> 0 \<le> h \<and> h < 24 \<and> 0 \<le> mi \<and> mi < 60 \<and> 0 \<le> s \<and> s < 60
         \<and> 0 \<le> us \<and> us < 1000000
      then Inr \<lparr>year = y, month = mo, day = d, hour = h, minute = mi, second = s,
                microsecond = us, tzinfo = tz\<rparr>
      else Inl ValueError)"

text \<open>\<^verbatim>\<open>timedelta(hours=h, minutes=m)\<close> as a number of seconds.\<close>

definition py_timedelta :: "int \<Rightarrow> int \<Rightarrow> pyerr + int" where
  "py_timedelta h m =
     (let total = 3600 * h + 60 * m in
      if \<bar>total div 86400\<bar> > 999999999 then Inl OverflowError else Inr total)"

definition py_timezone :: "int \<Rightarrow> pyerr + int" where
  "py_timezone offset =
     (if - 86400 < offset \<and> offset < 86400 then Inr offset else Inl ValueError)"

text \<open>Lines 104 to 120: the microseconds and the two components of the UTC offset.\<close>

definition time_microsecond :: "TimeValue \<Rightarrow> int" where
  "time_microsecond time_obj =
     (case fractional_seconds time_obj of
        None \<Rightarrow> 0
      | Some frac_seconds \<Rightarrow> frac_seconds mod 999999)"

definition gmt_delta :: "TimeValue \<Rightarrow> int \<times> int" where
  "gmt_delta time_obj =
     (let mult = (case gmt_delta_sign time_obj of
                    None \<Rightarrow> 1
                  | Some sg \<Rightarrow> if ''-'' = sg then - 1 else 1);
          delta_hours = (case gmt_delta_hours time_obj of None \<Rightarrow> 0 | Some h \<Rightarrow> mult * h);
          delta_min = (case gmt_delta_minutes time_obj of None \<Rightarrow> 0 | Some m \<Rightarrow> m)
      in (delta_hours, delta_min))"

text \<open>The body of the loop of \<^verbatim>\<open>_convert_datetimes\<close> for one value.\<close>

definition convert_value :: "(string \<Rightarrow> TimeValue list) \<Rightarrow> pyval \<Rightarrow> pyerr + pyval" where
  "convert_value time_finder_run v =
     (case v of
        VStr s \<Rightarrow>
          (case match_datetime s of
             None \<Rightarrow> Inr v
           | Some (y, mo, d, time_str) \<Rightarrow>
               (case time_str of
                  None \<Rightarrow>
                    (case py_datetime y mo d 0 0 0 0 None of
                       Inl e \<Rightarrow> Inl e
                     | Inr datetime_obj \<Rightarrow> Inr (VDateTime datetime_obj))
                | Some t \<Rightarrow>
                    (case time_finder_run t of
                       [time_obj] \<Rightarrow>
                         (case py_timedelta (fst (gmt_delta time_obj)) (snd (gmt_delta time_obj)) of
                            Inl e \<Rightarrow> Inl e
                          | Inr offset \<Rightarrow>
                              (case py_timezone offset of
                                 Inl e \<Rightarrow> Inl e
                               | Inr tz \<Rightarrow>
                                   (case py_datetime y mo d (hours time_obj) (minutes time_obj)
                                           (seconds time_obj) (time_microsecond time_obj) (Some tz) of
                                      Inl e \<Rightarrow> Inl e
                                    | Inr datetime_obj \<Rightarrow> Inr (VDateTime datetime_obj))))
                     | _ \<Rightarrow> Inl AssertionError)))
      | _ \<Rightarrow> Inr v)"

text \<open>The loop over the items, in insertion order. When a value raises, the items before
  it have been replaced already and the ones from it on are as they were.\<close>

fun convert_items :: "(string \<Rightarrow> TimeValue list) \<Rightarrow> pyobj \<Rightarrow> (pyerr + unit) \<times> pyobj" where
  "convert_items time_finder_run [] = (Inr (), [])"
| "convert_items time_finder_run ((k, v) # rest) =
     (case convert_value time_finder_run v of
        Inl e \<Rightarrow> (Inl e, (k, v) # rest)
      | Inr v' \<Rightarrow>
          (case convert_items time_finder_run rest of
             (r, rest') \<Rightarrow> (r, (k, v') # rest')))"

definition convert_datetimes :: "(string \<Rightarrow> TimeValue list) \<Rightarrow> pyobj \<Rightarrow> (pyerr + unit) \<times> pyobj" where
  "convert_datetimes time_finder_run flattened_obj = convert_items time_finder_run flattened_obj"

text \<open>A decomposition used in the concrete evaluations below: the one the time string
  \<^verbatim>\<open>08:30:00.500-05:00\<close> has by the collaborator's contract, half a second being reported as
  500000, and for any other time string the offset \<^verbatim>\<open>-05:30\<close> at the same time of day.\<close>

definition example_time_finder :: "string \<Rightarrow> TimeValue list" where
  "example_time_finder t =
     (if t = ''08:30:00.500-05:00''
      then [\<lparr>hours = 8, minutes = 30, seconds = 0, fractional_seconds = Some 500000,
             gmt_delta_sign = Some ''-'', gmt_delta_hours = Some 5, gmt_delta_minutes = Some 0\<rparr>]
      else [\<lparr>hours = 8, minutes = 30, seconds = 0, fractional_seconds = None,
             gmt_delta_sign = Some ''-'', gmt_delta_hours = Some 5, gmt_delta_minutes = Some 30\<rparr>])"

section \<open>Statements on the dictionary\<close>

text \<open>\<^verbatim>\<open>k in obj\<close>, \<^verbatim>\<open>obj[k]\<close> and \<^verbatim>\<open>obj[k] = v\<close> on the record itself.\<close>

definition has_key :: "pyobj \<Rightarrow> string \<Rightarrow> bool" where
  "has_key obj k = (map_of obj k \<noteq> None)"

definition get_item :: "string \<Rightarrow> pyval exec" where
  "get_item k = (\<lambda>obj. case map_of obj k of None \<Rightarrow> (Inl KeyError, obj) | Some v \<Rightarrow> (Inr v, obj))"

definition set_item :: "string \<Rightarrow> pyval \<Rightarrow> unit exec" where
  "set_item k v = (\<lambda>obj. (Inr (), AList.update k v obj))"

definition raise :: "pyerr \<Rightarrow> 'a exec" where
  "raise e = (\<lambda>obj. (Inl e, obj))"

definition lift :: "pyerr + 'a \<Rightarrow> 'a exec" where
  "lift r = (\<lambda>obj. (r, obj))"

definition when_key :: "string \<Rightarrow> unit exec \<Rightarrow> unit exec" where
  "when_key k body = (\<lambda>obj. if has_key obj k then body obj else (Inr (), obj))"

definition exec_seq :: "unit exec list \<Rightarrow> unit exec" where
  "exec_seq ms = for_each ms (\<lambda>m. m)"

text \<open>\<^verbatim>\<open>sub in v\<close> and \<^verbatim>\<open>v[sub]\<close> for a string \<open>sub\<close> and a value \<open>v\<close> of the record: a substring
  test on a string, a key test on a mapping, an element test on a list, and
  \<^verbatim>\<open>TypeError\<close> on the other values; subscripting with a string works on a mapping only.\<close>

fun contains_str :: "string \<Rightarrow> string \<Rightarrow> bool" where
  "contains_str sub [] = (sub = [])"
| "contains_str sub (c # cs) = (strip_prefix sub (c # cs) \<noteq> None \<or> contains_str sub cs)"

definition py_contains :: "string \<Rightarrow> pyval \<Rightarrow> pyerr + bool" where
  "py_contains sub v =
     (case v of
        VStr s \<Rightarrow> Inr (contains_str sub s)
      | VDict d \<Rightarrow> Inr (map_of d sub \<noteq> None)
      | VList xs \<Rightarrow> Inr (VStr sub \<in> set xs)
      | _ \<Rightarrow> Inl TypeError)"

definition py_getitem :: "pyval \<Rightarrow> string \<Rightarrow> pyerr + pyval" where
  "py_getitem v sub =
     (case v of
        VDict d \<Rightarrow> (case map_of d sub of None \<Rightarrow> Inl KeyError | Some x \<Rightarrow> Inr x)
      | _ \<Rightarrow> Inl TypeError)"

text \<open>\<^verbatim>\<open>sub in obj[k]\<close> and \<^verbatim>\<open>obj[k][sub]\<close>.\<close>

definition sub_contains :: "string \<Rightarrow> string \<Rightarrow> bool exec" where
  "sub_contains k sub = exec_bind (get_item k) (\<lambda>v. lift (py_contains sub v))"

definition sub_get :: "string \<Rightarrow> string \<Rightarrow> pyval exec" where
  "sub_get k sub = exec_bind (get_item k) (\<lambda>v. lift (py_getitem v sub))"

text \<open>A call of \<^verbatim>\<open>_set_list_length\<close> as a statement; a run of calls whose results are not
  used; and the idiom \<^verbatim>\<open>count = _set_list_length(obj, p)\<close> followed by
  \<^verbatim>\<open>for i in range(count)\<close>.\<close>

definition set_length :: "string \<Rightarrow> int exec" where
  "set_length prefix_str = (\<lambda>obj. set_list_length obj prefix_str)"

definition set_lengths :: "string list \<Rightarrow> unit exec" where
  "set_lengths ps = for_each ps (\<lambda>p. exec_bind (set_length p) (\<lambda>_. skip))"

definition counted :: "string \<Rightarrow> (nat \<Rightarrow> unit exec) \<Rightarrow> unit exec" where
  "counted prefix_str body =
     exec_bind (set_length prefix_str) (\<lambda>count. for_each [0..<nat count] body)"

section \<open>The base and contained-medication initialisers\<close>

definition base_init :: "unit exec" where
  "base_init =
     exec_then
       (counted ''identifier'' (\<lambda>i.
          set_lengths [''identifier_'' @ str_of_nat i @ ''_type_coding'']))
       (for_each [''extension'', ''modifierExtension''] (\<lambda>field.
          counted field (\<lambda>i.
            set_lengths
              [field @ ''_'' @ str_of_nat i @ ''_valueCodeableConcept_coding'',
               field @ ''_'' @ str_of_nat i @ ''_valueTiming_event'',
               field @ ''_'' @ str_of_nat i @ ''_valueTiming_code_coding'',
               field @ ''_'' @ str_of_nat i @ ''_valueAddress_line'',
               field @ ''_'' @ str_of_nat i @ ''_valueHumanName_family'',
               field @ ''_'' @ str_of_nat i @ ''_valueHumanName_given'',
               field @ ''_'' @ str_of_nat i @ ''_valueHumanName_prefix'',
               field @ ''_'' @ str_of_nat i @ ''_valueHumanName_suffix'',
               field @ ''_'' @ str_of_nat i @ ''_valueSignature_type_coding'',
               field @ ''_'' @ str_of_nat i @ ''_extension''])))"

definition contained_med_resource_init :: "unit exec" where
  "contained_med_resource_init =
     counted ''contained'' (\<lambda>i.
       set_lengths
         (map (\<lambda>field. ''contained_'' @ str_of_nat i @ ''_'' @ field)
            [''code_coding'', ''product_form'', ''product_ingredient'',
             ''product_batch'', ''package_container_coding'', ''package_content'']))"

section \<open>The resource decoders\<close>

text \<open>
  The time-sorting block shared, letter for letter, by the Observation and the
  MedicationAdministration decoders. Its last assignment names \<^verbatim>\<open>KEY_END_DATE_TIME\<close>, which
  the module never defines (the constant is \<^verbatim>\<open>_KEY_END_DATE_TIME\<close>): evaluating the
  target raises \<^verbatim>\<open>NameError\<close> after the right-hand side has been read.
\<close>

definition effective_timestamps :: "string \<Rightarrow> string \<Rightarrow> unit exec" where
  "effective_timestamps KEY_EDT KEY_EP =
     exec_then
       (when_key KEY_EDT
          (exec_bind (get_item KEY_EDT) (\<lambda>edt. set_item ''date_time'' edt)))
       (when_key KEY_EP
          (exec_then
             (exec_bind (sub_contains KEY_EP ''start'') (\<lambda>b.
                if b then exec_bind (sub_get KEY_EP ''start'') (\<lambda>start. set_item ''date_time'' start)
                else skip))
             (exec_bind (sub_contains KEY_EP ''end'') (\<lambda>b.
                if b then exec_bind (sub_get KEY_EP ''end'') (\<lambda>end_value. raise NameError)
                else skip))))"

definition decode_flattened_observation :: "unit exec" where
  "decode_flattened_observation =
     exec_seq
       [effective_timestamps ''effectiveDateTime'' ''effectivePeriod'',
        base_init,
        set_lengths [''category_coding'', ''code_coding'', ''performer'',
                     ''valueCodeableConcept_coding'', ''dataAbsentReason_coding'',
                     ''interpretation_coding'', ''bodySite_coding'', ''method_coding''],
        counted ''referenceRange'' (\<lambda>i.
          set_lengths [''referenceRange_'' @ str_of_nat i @ ''_meaning_coding'']),
        counted ''component'' (\<lambda>i.
          set_lengths
            (map (\<lambda>field. ''component_'' @ str_of_nat i @ ''_'' @ field)
               [''code_coding'', ''valueCodeableConcept_coding'',
                ''dataAbsentReason_coding'', ''referenceRange'']))]"

text \<open>In the two loops over the reasons the key is the template itself: \<^verbatim>\<open>.format(i)\<close> is
  never applied to it.\<close>

definition decode_flattened_medication_administration :: "unit exec" where
  "decode_flattened_medication_administration =
     exec_seq
       [effective_timestamps ''effectiveTimeDateTime'' ''effectiveTimePeriod'',
        base_init,
        contained_med_resource_init,
        counted ''reasonNotGiven'' (\<lambda>i. set_lengths [''reasonNotGiven_{0}_coding'']),
        counted ''reasonGiven'' (\<lambda>i. set_lengths [''reasonGiven_{0}_coding'']),
        set_lengths [''medicationCodeableConcept_coding'', ''device'',
                     ''dosage_siteCodeableConcept_coding'', ''dosage_route_coding'',
                     ''dosage_method_coding'']]"

definition decode_flattened_medication_order :: "unit exec" where
  "decode_flattened_medication_order =
     exec_seq
       [when_key ''dateWritten''
          (exec_bind (get_item ''dateWritten'') (\<lambda>dw. set_item ''date_time'' dw)),
        when_key ''dateEnded''
          (exec_bind (get_item ''dateEnded'') (\<lambda>de. set_item ''end_date_time'' de)),
        base_init,
        contained_med_resource_init,
        set_lengths [''reasonEnded_coding'', ''reasonCodeableConcept_coding'',
                     ''medicationCodeableConcept_coding''],
        counted ''dosageInstruction'' (\<lambda>i.
          set_lengths
            (map (\<lambda>field. ''dosageInstruction_'' @ str_of_nat i @ ''_'' @ field)
               [''additionalInstructions_coding'', ''timing_code_coding'',
                ''asNeededCodeableConcept_coding'', ''siteCodeableConcept_coding'',
                ''route_coding'', ''method_coding''])),
        set_lengths [''dispenseRequest_medicationCodeableConcept_coding'',
                     ''substitution_type_coding'', ''substitution_reason_coding'']]"

definition decode_flattened_medication_statement :: "unit exec" where
  "decode_flattened_medication_statement =
     exec_seq
       [when_key ''dateAsserted''
          (exec_bind (get_item ''dateAsserted'') (\<lambda>da. set_item ''date_time'' da)),
        base_init,
        contained_med_resource_init,
        counted ''reasonNotTaken'' (\<lambda>i. set_lengths [''reason_{0}_coding'']),
        set_lengths [''reasonForUseCodeableConcept_coding'', ''supportingInformation'',
                     ''medicationCodeableConcept_coding''],
        counted ''dosage'' (\<lambda>i.
          set_lengths
            (map (\<lambda>field. ''dosage_'' @ str_of_nat i @ ''_'' @ field)
               [''asNeededCodeableConcept_coding'', ''siteCodeableConcept_coding'',
                ''route_coding'', ''method_coding'']))]"

text \<open>The Condition decoder reads \<^verbatim>\<open>obj[KEY_OP][_KEY_START]\<close> and \<^verbatim>\<open>obj[KEY_AP][_KEY_END]\<close>
  with no membership test on the period.\<close>

definition condition_timestamps :: "unit exec" where
  "condition_timestamps =
     exec_seq
       [when_key ''onsetDateTime''
          (exec_bind (get_item ''onsetDateTime'') (\<lambda>odt. set_item ''date_time'' odt)),
        when_key ''abatementDateTime''
          (exec_bind (get_item ''abatementDateTime'') (\<lambda>adt. set_item ''end_date_time'' adt)),
        when_key ''onsetPeriod''
          (exec_bind (sub_get ''onsetPeriod'' ''start'') (\<lambda>start. set_item ''date_time'' start)),
        when_key ''abatementPeriod''
          (exec_bind (sub_get ''abatementPeriod'' ''end'') (\<lambda>end_value. set_item ''end_date_time'' end_value))]"

definition condition_lengths :: "unit exec" where
  "condition_lengths =
     exec_seq
       [base_init,
        set_lengths [''code_coding'', ''category_coding'', ''severity_coding'',
                     ''stage_assessment''],
        counted ''evidence'' (\<lambda>i.
          set_lengths
            (map (\<lambda>field. ''evidence_'' @ str_of_nat i @ ''_'' @ field)
               [''code_coding'', ''detail''])),
        counted ''bodySite'' (\<lambda>i.
          set_lengths [''bodySite_'' @ str_of_nat i @ ''_coding''])]"

definition decode_flattened_condition :: "unit exec" where
  "decode_flattened_condition = exec_then condition_timestamps condition_lengths"

definition procedure_timestamps :: "unit exec" where
  "procedure_timestamps =
     exec_then
       (when_key ''performedDateTime''
          (exec_bind (get_item ''performedDateTime'') (\<lambda>pdt. set_item ''date_time'' pdt)))
       (when_key ''performedPeriod''
          (exec_then
             (exec_bind (sub_contains ''performedPeriod'' ''start'') (\<lambda>b.
                if b then exec_bind (sub_get ''performedPeriod'' ''start'')
                            (\<lambda>start. set_item ''date_time'' start)
                else skip))
             (exec_bind (sub_contains ''performedPeriod'' ''end'') (\<lambda>b.
                if b then exec_bind (sub_get ''performedPeriod'' ''end'')
                            (\<lambda>end_value. set_item ''end_date_time'' end_value)
                else skip))))"

definition procedure_lengths :: "unit exec" where
  "procedure_lengths =
     exec_seq
       [base_init,
        contained_med_resource_init,
        set_lengths [''category_coding'', ''code_coding'', ''reasonNotPerformed_coding''],
        counted ''bodySite'' (\<lambda>i.
          set_lengths [''bodySite_'' @ str_of_nat i @ ''_coding'']),
        set_lengths [''reasonCodeableConcept_coding''],
        counted ''performer'' (\<lambda>i.
          set_lengths [''performer_'' @ str_of_nat i @ ''_role_coding'']),
        set_lengths [''outcome_coding'', ''report''],
        counted ''complication'' (\<lambda>i.
          set_lengths [''complication_'' @ str_of_nat i @ ''_coding'']),
        counted ''followUp'' (\<lambda>i.
          set_lengths [''followUp_'' @ str_of_nat i @ ''_coding'']),
        set_lengths [''notes''],
        counted ''focalDevice'' (\<lambda>i.
          set_lengths [''focalDevice_'' @ str_of_nat i @ ''_action_coding'']),
        set_lengths [''used'']]"

definition decode_flattened_procedure :: "unit exec" where
  "decode_flattened_procedure = exec_then procedure_timestamps procedure_lengths"

text \<open>
  The collaborators \<^verbatim>\<open>flatten\<close> and \<^verbatim>\<open>json.loads\<close> are parameters: \<open>flatten\<close> maps a
  dictionary to its flattened form, and \<open>json_loads\<close> gives the parsed value, or the
  message of the \<^verbatim>\<open>JSONDecodeError\<close> it raises.
\<close>

definition patient_lengths :: "unit exec" where
  "patient_lengths =
     exec_seq
       [base_init,
        counted ''name'' (\<lambda>i.
          for_each [''family'', ''given'', ''prefix'', ''suffix''] (\<lambda>field.
            counted (''name_'' @ str_of_nat i @ ''_'' @ field) (\<lambda>j.
              set_lengths [(''name_'' @ str_of_nat i @ ''_'' @ field) @ ''_'' @ str_of_nat j]))),
        set_lengths [''telecom''],
        counted ''address'' (\<lambda>i.
          set_lengths [''address_'' @ str_of_nat i @ ''_line'']),
        set_lengths [''maritalStatus_coding''],
        counted ''contact'' (\<lambda>i.
          for_each [''relationship'', ''telecom''] (\<lambda>field.
            counted (''contact_'' @ str_of_nat i @ ''_'' @ field) (\<lambda>j.
              set_lengths
                [(''contact_'' @ str_of_nat i @ ''_'' @ field) @ ''_'' @ str_of_nat j @ ''_coding'']))),
        set_lengths [''animal_species_coding'', ''animal_breed_coding'',
                     ''animal_genderStatus_coding''],
        counted ''communication'' (\<lambda>i.
          set_lengths [''communication_'' @ str_of_nat i @ ''_language_coding'']),
        set_lengths [''careProvider'', ''link'']]"

text \<open>
  In the Patient decoder the handler of the parse failure is written
  \<^verbatim>\<open>except json.decoder.JSONDecoderError\<close>. The module \<^verbatim>\<open>json.decoder\<close> has no such attribute
  (the class is \<^verbatim>\<open>JSONDecodeError\<close>), and Python evaluates the expression of an \<^verbatim>\<open>except\<close>
  clause when an exception reaches it: a parse failure raises \<^verbatim>\<open>AttributeError\<close> and the
  handler's body, with its \<^verbatim>\<open>print\<close>, never runs.
\<close>

definition decode_flattened_patient ::
    "(string \<Rightarrow> string + pyval) \<Rightarrow> (pyobj \<Rightarrow> pyobj) \<Rightarrow> (string \<Rightarrow> TimeValue list)
       \<Rightarrow> pyval \<Rightarrow> pyerr + pyobj" where
  "decode_flattened_patient json_loads flatten time_finder_run obj =
     (case (case obj of
              VStr s \<Rightarrow> (case json_loads s of Inl msg \<Rightarrow> Inl AttributeError | Inr v \<Rightarrow> Inr v)
            | _ \<Rightarrow> Inr obj) of
        Inl e \<Rightarrow> Inl e
      | Inr (VDict d) \<Rightarrow>
          (case convert_datetimes time_finder_run (flatten d) of
             (Inl e, _) \<Rightarrow> Inl e
           | (Inr _, flattened_patient) \<Rightarrow>
               (case patient_lengths flattened_patient of
                  (Inl e, _) \<Rightarrow> Inl e
                | (Inr _, flattened_patient') \<Rightarrow> Inr flattened_patient'))
      | Inr _ \<Rightarrow> Inl AssertionError)"

section \<open>The dispatcher and the bundle\<close>

definition returned :: "(pyerr + unit) \<times> pyobj \<Rightarrow> pyerr + pyobj option" where
  "returned r = (case r of (Inl e, _) \<Rightarrow> Inl e | (Inr _, obj) \<Rightarrow> Inr (Some obj))"

definition process_resource ::
    "(string \<Rightarrow> string + pyval) \<Rightarrow> (pyobj \<Rightarrow> pyobj) \<Rightarrow> (string \<Rightarrow> TimeValue list)
       \<Rightarrow> pyval \<Rightarrow> pyerr + pyobj option" where
  "process_resource json_loads flatten time_finder_run obj =
     (case obj of
        VDict d \<Rightarrow>
          (case convert_datetimes time_finder_run (flatten d) of
             (Inl e, _) \<Rightarrow> Inl e
           | (Inr _, flattened_obj) \<Rightarrow>
               if has_key flattened_obj ''resourceType'' then
                 (case map_of d ''resourceType'' of
                    None \<Rightarrow> Inl KeyError
                  | Some rt \<Rightarrow>
                      if VStr ''Patient'' = rt then
                        map_sum id Some
                          (decode_flattened_patient json_loads flatten time_finder_run
                             (VDict flattened_obj))
                      else if VStr ''Observation'' = rt then
                        returned (decode_flattened_observation flattened_obj)
                      else if VStr ''Procedure'' = rt then
                        returned (decode_flattened_procedure flattened_obj)
                      else if VStr ''Condition'' = rt then
                        returned (decode_flattened_condition flattened_obj)
                      else if VStr ''MedicationStatement'' = rt then
                        returned (decode_flattened_medication_statement flattened_obj)
                      else if VStr ''MedicationOrder'' = rt then
                        returned (decode_flattened_medication_order flattened_obj)
                      else if VStr ''MedicationAdministration'' = rt then
                        returned (decode_flattened_medication_administration flattened_obj)
                      else Inr None)
               else Inr None)
      | _ \<Rightarrow> Inl AssertionError)"

text \<open>The loop of \<^verbatim>\<open>_decode_bundle\<close>: the results that are not \<^verbatim>\<open>None\<close> are appended in
  order; the first exception ends it.\<close>

fun bundle_loop ::
    "(string \<Rightarrow> string + pyval) \<Rightarrow> (pyobj \<Rightarrow> pyobj) \<Rightarrow> (string \<Rightarrow> TimeValue list)
       \<Rightarrow> pyval list \<Rightarrow> pyerr + pyobj list" where
  "bundle_loop json_loads flatten time_finder_run [] = Inr []"
| "bundle_loop json_loads flatten time_finder_run (elt # rest) =
     (case process_resource json_loads flatten time_finder_run elt of
        Inl e \<Rightarrow> Inl e
      | Inr result \<Rightarrow>
          (case bundle_loop json_loads flatten time_finder_run rest of
             Inl e \<Rightarrow> Inl e
           | Inr bundled_objs \<Rightarrow>
               Inr (case result of None \<Rightarrow> bundled_objs | Some r \<Rightarrow> r # bundled_objs)))"

text \<open>\<^verbatim>\<open>_decode_bundle\<close> returns the lines it printed and its outcome.\<close>

definition decode_bundle ::
    "(string \<Rightarrow> string + pyval) \<Rightarrow> (pyobj \<Rightarrow> pyobj) \<Rightarrow> (string \<Rightarrow> TimeValue list)
       \<Rightarrow> pyval \<Rightarrow> pyval \<Rightarrow> string list \<times> (pyerr + pyobj list)" where
  "decode_bundle json_loads flatten time_finder_run name bundle_obj =
     (case bundle_obj of
        VStr s \<Rightarrow>
          (case json_loads s of
             Inl msg \<Rightarrow>
               ([[CHR 0x09] @ ''cql_result_parser.py: String conversion (bundle) failed with error: ''
                   @ [CHR 0x22] @ msg @ [CHR 0x22]],
                Inr [])
           | Inr obj \<Rightarrow>
               (case obj of
                  VList elts \<Rightarrow> ([], bundle_loop json_loads flatten time_finder_run elts)
                | _ \<Rightarrow> ([], Inl AssertionError)))
      | _ \<Rightarrow> ([], Inl AssertionError))"

text \<open>Stand-ins for the two other collaborators in the concrete evaluations below: a
  parser for which the text \<^verbatim>\<open>{\<close> is malformed and \<^verbatim>\<open>[]\<close> is the empty list, and the
  flattening of a record that is flat already.\<close>

definition example_json_loads :: "string \<Rightarrow> string + pyval" where
  "example_json_loads s =
     (if s = ''[]'' then Inr (VList [])
      else Inl ''Expecting property name enclosed in double quotes'')"

definition example_flatten :: "pyobj \<Rightarrow> pyobj" where
  "example_flatten obj = obj"



section \<open>Properties of the list-length inference\<close>



















lemma map_filter_append:
  "List.map_filter f (xs @ ys) = List.map_filter f xs @ List.map_filter f ys"
  by (simp add: List.map_filter_def)




section \<open>Properties of the datetime normalisation\<close>

lemmas datetime_eval = match_datetime_def take_digits_def is_time_str_def is_digit_def int_of_digits_def digit_val_def
  convert_value_def py_datetime_def py_timedelta_def py_timezone_def gmt_delta_def time_microsecond_def
  days_in_month_def is_leap_def example_time_finder_def convert_datetimes_def

lemma convert_items_ok:
  assumes "\<forall>(k, v)\<in>set obj. \<exists>v'. convert_value tf v = Inr v'"
  shows "\<exists>obj'. convert_items tf obj = (Inr (), obj') \<and> map fst obj' = map fst obj
           \<and> (\<forall>k v. map_of obj k = Some v \<longrightarrow>
                 (\<exists>v'. convert_value tf v = Inr v' \<and> map_of obj' k = Some v'))"
  using assms
proof (induction obj)
  case Nil
  show ?case by simp
next
  case (Cons kv obj)
  obtain k v where kv: "kv = (k, v)" by (cases kv)
  from Cons.prems kv obtain v' where v': "convert_value tf v = Inr v'" by auto
  from Cons.prems have "\<forall>(k, v)\<in>set obj. \<exists>v'. convert_value tf v = Inr v'" by simp
  from Cons.IH [OF this] obtain obj' where
    IH: "convert_items tf obj = (Inr (), obj')" "map fst obj' = map fst obj"
      "\<And>k v. map_of obj k = Some v \<Longrightarrow> \<exists>v'. convert_value tf v = Inr v' \<and> map_of obj' k = Some v'"
    by blast
  show ?case
    unfolding kv using v' IH by auto
qed

lemma convert_value_full_instant:
  assumes "time_finder_run ''08:30:00.500-05:00'' =
      [\<lparr>hours = 8, minutes = 30, seconds = 0, fractional_seconds = Some 500000,
        gmt_delta_sign = Some ''-'', gmt_delta_hours = Some 5, gmt_delta_minutes = Some 0\<rparr>]"
  shows "convert_value time_finder_run (VStr ''2020-03-14T08:30:00.500-05:00'') =
     Inr (VDateTime \<lparr>year = 2020, month = 3, day = 14, hour = 8, minute = 30, second = 0,
                      microsecond = 500000, tzinfo = Some (- 18000)\<rparr>)"
proof -
  have m: "match_datetime ''2020-03-14T08:30:00.500-05:00'' = Some (2020, 3, 14, Some ''08:30:00.500-05:00'')"
    by (simp add: match_datetime_def take_digits_def is_time_str_def is_digit_def int_of_digits_def digit_val_def)
  show ?thesis
    by (simp add: convert_value_def m assms py_datetime_def py_timedelta_def py_timezone_def
        gmt_delta_def time_microsecond_def days_in_month_def is_leap_def)
qed

text \<open>
  Claim C2, as stated, for a record with a second entry: the value \<^verbatim>\<open>2021-02-30\<close> matches
  the pattern and \<^verbatim>\<open>datetime(year=2021, month=2, day=30)\<close> raises \<^verbatim>\<open>ValueError\<close>, so the pass
  stops there and the timestamp that follows is still a string.
\<close>

theorem convert_datetimes_sibling_counterexample:
  "example_time_finder ''08:30:00.500-05:00'' =
      [\<lparr>hours = 8, minutes = 30, seconds = 0, fractional_seconds = Some 500000,
        gmt_delta_sign = Some ''-'', gmt_delta_hours = Some 5, gmt_delta_minutes = Some 0\<rparr>]
   \<and> convert_datetimes example_time_finder
       [(''issued'', VStr ''2021-02-30''),
        (''effectiveDateTime'', VStr ''2020-03-14T08:30:00.500-05:00'')]
     = (Inl ValueError,
        [(''issued'', VStr ''2021-02-30''),
         (''effectiveDateTime'', VStr ''2020-03-14T08:30:00.500-05:00'')])"
  by (simp add: datetime_eval)

text \<open>
  Claim C2, amended: for every flattened record containing the string value
  \<^verbatim>\<open>2020-03-14T08:30:00.500-05:00\<close> whose other values all normalise without raising, the
  datetime-normalisation pass completes, keeps the keys, and replaces that value with the
  instant year 2020, month 3, day 14, hour 8, minute 30, second 0, microsecond 500000
  (that is \<open>500000 mod 999999\<close>) and UTC offset \<open>-5\<close> hours, given that the time-decomposition
  collaborator decomposes the time substring into hours 8, minutes 30, seconds 0,
  fractional seconds 500000, sign \<^verbatim>\<open>-\<close>, offset hours 5 and offset minutes 0.
\<close>

theorem convert_datetimes_full_instant:
  assumes tf: "time_finder_run ''08:30:00.500-05:00'' =
      [\<lparr>hours = 8, minutes = 30, seconds = 0, fractional_seconds = Some 500000,
        gmt_delta_sign = Some ''-'', gmt_delta_hours = Some 5, gmt_delta_minutes = Some 0\<rparr>]"
    and ok: "\<forall>(k, v)\<in>set flattened_obj. v \<noteq> VStr ''2020-03-14T08:30:00.500-05:00'' \<longrightarrow>
               (\<exists>v'. convert_value time_finder_run v = Inr v')"
  shows "\<exists>obj'. convert_datetimes time_finder_run flattened_obj = (Inr (), obj')
           \<and> map fst obj' = map fst flattened_obj
           \<and> (\<forall>k. map_of flattened_obj k = Some (VStr ''2020-03-14T08:30:00.500-05:00'') \<longrightarrow>
                 map_of obj' k =
                   Some (VDateTime \<lparr>year = 2020, month = 3, day = 14, hour = 8, minute = 30,
                           second = 0, microsecond = 500000, tzinfo = Some (- 18000)\<rparr>))"
proof -
  have inst: "convert_value time_finder_run (VStr ''2020-03-14T08:30:00.500-05:00'') =
     Inr (VDateTime \<lparr>year = 2020, month = 3, day = 14, hour = 8, minute = 30, second = 0,
                      microsecond = 500000, tzinfo = Some (- 18000)\<rparr>)"
    using tf by (rule convert_value_full_instant)
  have "\<forall>(k, v)\<in>set flattened_obj. \<exists>v'. convert_value time_finder_run v = Inr v'"
    using ok inst by fastforce
  from convert_items_ok [OF this] obtain obj' where
    r: "convert_items time_finder_run flattened_obj = (Inr (), obj')"
      "map fst obj' = map fst flattened_obj"
      "\<And>k v. map_of flattened_obj k = Some v \<Longrightarrow>
          \<exists>v'. convert_value time_finder_run v = Inr v' \<and> map_of obj' k = Some v'"
    by blast
  show ?thesis
  proof (intro exI conjI allI impI)
    show "convert_datetimes time_finder_run flattened_obj = (Inr (), obj')"
      by (simp add: convert_datetimes_def r(1))
    show "map fst obj' = map fst flattened_obj" by (rule r(2))
  next
    fix k
    assume "map_of flattened_obj k = Some (VStr ''2020-03-14T08:30:00.500-05:00'')"
    from r(3) [OF this] inst
    show "map_of obj' k =
        Some (VDateTime \<lparr>year = 2020, month = 3, day = 14, hour = 8, minute = 30,
                second = 0, microsecond = 500000, tzinfo = Some (- 18000)\<rparr>)"
      by simp
  qed
qed

theorem convert_datetimes_full_instant_witness:
  "fst (convert_datetimes example_time_finder
      [(''status'', VStr ''final''),
       (''effectiveDateTime'', VStr ''2020-03-14T08:30:00.500-05:00''),
       (''issued'', VStr ''2020-03-15'')]) = Inr ()
   \<and> map_of (snd (convert_datetimes example_time_finder
      [(''status'', VStr ''final''),
       (''effectiveDateTime'', VStr ''2020-03-14T08:30:00.500-05:00''),
       (''issued'', VStr ''2020-03-15'')])) ''effectiveDateTime''
     = Some (VDateTime \<lparr>year = 2020, month = 3, day = 14, hour = 8, minute = 30,
               second = 0, microsecond = 500000, tzinfo = Some (- 18000)\<rparr>)"
proof -
  have tf: "example_time_finder ''08:30:00.500-05:00'' =
      [\<lparr>hours = 8, minutes = 30, seconds = 0, fractional_seconds = Some 500000,
        gmt_delta_sign = Some ''-'', gmt_delta_hours = Some 5, gmt_delta_minutes = Some 0\<rparr>]"
    by (simp add: example_time_finder_def)
  have ok: "\<forall>(k, v)\<in>set [(''status'', VStr ''final''),
       (''effectiveDateTime'', VStr ''2020-03-14T08:30:00.500-05:00''),
       (''issued'', VStr ''2020-03-15'')]. v \<noteq> VStr ''2020-03-14T08:30:00.500-05:00'' \<longrightarrow>
               (\<exists>v'. convert_value example_time_finder v = Inr v')"
    by (simp add: datetime_eval)
  from convert_datetimes_full_instant [of example_time_finder, OF tf ok]
  obtain obj' where a: "convert_datetimes example_time_finder
      [(''status'', VStr ''final''),
       (''effectiveDateTime'', VStr ''2020-03-14T08:30:00.500-05:00''),
       (''issued'', VStr ''2020-03-15'')] = (Inr (), obj')"
    and c: "\<forall>k. map_of [(''status'', VStr ''final''),
       (''effectiveDateTime'', VStr ''2020-03-14T08:30:00.500-05:00''),
       (''issued'', VStr ''2020-03-15'')] k = Some (VStr ''2020-03-14T08:30:00.500-05:00'') \<longrightarrow>
                 map_of obj' k =
                   Some (VDateTime \<lparr>year = 2020, month = 3, day = 14, hour = 8, minute = 30,
                           second = 0, microsecond = 500000, tzinfo = Some (- 18000)\<rparr>)"
    by blast
  from c have "map_of obj' ''effectiveDateTime'' =
                   Some (VDateTime \<lparr>year = 2020, month = 3, day = 14, hour = 8, minute = 30,
                           second = 0, microsecond = 500000, tzinfo = Some (- 18000)\<rparr>)"
    by simp
  with a show ?thesis by simp
qed



section \<open>Properties of the decoders\<close>

text \<open>
  Claim C1 fails on the code: an Observation whose \<^verbatim>\<open>effectivePeriod\<close> is a mapping with an
  \<^verbatim>\<open>end\<close> entry does not get \<^verbatim>\<open>end_date_time\<close>; the decoder stops with \<^verbatim>\<open>NameError\<close> at the
  assignment to \<^verbatim>\<open>obj[KEY_END_DATE_TIME]\<close>, and no list length has been inferred.
\<close>

theorem decode_flattened_observation_period_end:
  "decode_flattened_observation
     [(''resourceType'', VStr ''Observation''),
      (''code_coding_0_code'', VStr ''804-5''),
      (''effectivePeriod'', VDict [(''end'', VStr ''2020-01-02'')])]
   = (Inl NameError,
      [(''resourceType'', VStr ''Observation''),
       (''code_coding_0_code'', VStr ''804-5''),
       (''effectivePeriod'', VDict [(''end'', VStr ''2020-01-02'')])])"
  by code_simp

text \<open>
  Claim C7 fails on the code: for a MedicationAdministration with one \<^verbatim>\<open>reasonNotGiven\<close>
  whose coding list has one element, the decoder writes \<^verbatim>\<open>len_reasonNotGiven\<close> and nothing
  for the prefix \<^verbatim>\<open>reasonNotGiven_0_coding\<close>, although a key with that prefix exists.
\<close>

theorem decode_flattened_medication_administration_reason_coding:
  "decode_flattened_medication_administration
     [(''resourceType'', VStr ''MedicationAdministration''),
      (''reasonNotGiven_0_coding_0_code'', VStr ''x'')]
   = (Inr (),
      [(''resourceType'', VStr ''MedicationAdministration''),
       (''reasonNotGiven_0_coding_0_code'', VStr ''x''),
       (''len_reasonNotGiven'', VInt 1)])"
  by code_simp

text \<open>The Condition decoder formats the key of the same shape, and the length is written.\<close>

lemma decode_flattened_condition_body_site_coding:
  "decode_flattened_condition
     [(''resourceType'', VStr ''Condition''),
      (''bodySite_0_coding_0_code'', VStr ''x'')]
   = (Inr (),
      [(''resourceType'', VStr ''Condition''),
       (''bodySite_0_coding_0_code'', VStr ''x''),
       (''len_bodySite'', VInt 1),
       (''len_bodySite_0_coding'', VInt 1)])"
  by code_simp

text \<open>A payload that does not parse: the bundle path prints its report and returns the
  empty list, for every parser and every message.\<close>

lemma decode_bundle_malformed:
  assumes "json_loads s = Inl msg"
  shows "decode_bundle json_loads flatten time_finder_run name (VStr s)
     = ([[CHR 0x09] @ ''cql_result_parser.py: String conversion (bundle) failed with error: ''
           @ [CHR 0x22] @ msg @ [CHR 0x22]],
        Inr [])"
  using assms by (simp add: decode_bundle_def)

lemma decode_flattened_patient_malformed:
  assumes "json_loads s = Inl msg"
  shows "decode_flattened_patient json_loads flatten time_finder_run (VStr s) = Inl AttributeError"
  using assms by (simp add: decode_flattened_patient_def)

text \<open>
  Claim C6 fails on the code for the Patient payload: on the malformed text \<^verbatim>\<open>{\<close> the
  Patient path raises \<^verbatim>\<open>AttributeError\<close> and prints nothing, where the bundle path prints
  one line and returns the empty list.
\<close>

theorem decode_flattened_patient_malformed_payload:
  "decode_flattened_patient example_json_loads example_flatten example_time_finder (VStr ''{'')
     = Inl AttributeError
   \<and> decode_bundle example_json_loads example_flatten example_time_finder VNone (VStr ''{'')
     = ([[CHR 0x09] @ ''cql_result_parser.py: String conversion (bundle) failed with error: ''
           @ [CHR 0x22] @ ''Expecting property name enclosed in double quotes'' @ [CHR 0x22]],
        Inr [])"
  by (simp add: decode_flattened_patient_def decode_bundle_def example_json_loads_def)












































section \<open>Properties of the dispatcher and the bundle\<close>

lemma process_resource_unknown:
  assumes rt: "map_of d ''resourceType'' = Some rt"
    and unk: "rt \<notin> set [VStr ''Patient'', VStr ''Observation'', VStr ''Procedure'',
                          VStr ''Condition'', VStr ''MedicationStatement'',
                          VStr ''MedicationOrder'', VStr ''MedicationAdministration'']"
    and conv: "fst (convert_datetimes time_finder_run (flatten d)) = Inr ()"
  shows "process_resource json_loads flatten time_finder_run (VDict d) = Inr None"
proof (cases "convert_datetimes time_finder_run (flatten d)")
  case (Pair r flattened_obj)
  with conv have "r = Inr ()" by simp
  with Pair rt unk show ?thesis
    by (auto simp add: process_resource_def)
qed

lemma bundle_loop_skip:
  assumes "process_resource json_loads flatten time_finder_run u = Inr None"
  shows "bundle_loop json_loads flatten time_finder_run (xs @ u # ys)
           = bundle_loop json_loads flatten time_finder_run (xs @ ys)"
proof (induction xs)
  case Nil
  from assms show ?case by (simp split: sum.splits)
next
  case (Cons x xs)
  from Cons.IH show ?case by (simp only: append_Cons bundle_loop.simps)
qed

lemma bundle_loop_ordered:
  assumes "list_all (\<lambda>x. \<not> isl (process_resource json_loads flatten time_finder_run x)) elts"
  shows "bundle_loop json_loads flatten time_finder_run elts
           = Inr (List.map_filter
                    (\<lambda>x. projr (process_resource json_loads flatten time_finder_run x)) elts)"
  using assms
proof (induction elts)
  case Nil
  show ?case by simp
next
  case (Cons x elts)
  then obtain r where "process_resource json_loads flatten time_finder_run x = Inr r"
    by (cases "process_resource json_loads flatten time_finder_run x") auto
  with Cons show ?case by (simp split: option.splits)
qed

lemma decode_bundle_parsed:
  assumes "json_loads s = Inr (VList elts)"
  shows "decode_bundle json_loads flatten time_finder_run name (VStr s)
           = ([], bundle_loop json_loads flatten time_finder_run elts)"
  using assms by (simp add: decode_bundle_def)

text \<open>
  Claim C3, as stated, for a record with a second entry: the discriminator is present and
  unsupported, but the datetime normalisation runs first, \<^verbatim>\<open>2021-02-30\<close> matches the pattern,
  \<^verbatim>\<open>datetime(year=2021, month=2, day=30)\<close> raises \<^verbatim>\<open>ValueError\<close>, and per-resource decoding
  ends with that error instead of returning \<^verbatim>\<open>None\<close>.
\<close>

theorem process_resource_bad_date_counterexample:
  "map_of [(''resourceType'', VStr ''Unsupported''), (''issued'', VStr ''2021-02-30'')] ''resourceType''
     = Some (VStr ''Unsupported'')
   \<and> process_resource example_json_loads example_flatten example_time_finder
       (VDict [(''resourceType'', VStr ''Unsupported''), (''issued'', VStr ''2021-02-30'')])
     = Inl ValueError"
  by code_simp

text \<open>
  Claim C3, amended: for every input record whose resource-type discriminator is present
  but is none of the seven supported types, and whose datetime normalisation completes,
  per-resource decoding returns \<^verbatim>\<open>None\<close> and no error; in the loop of the bundle the record
  contributes nothing (the loop gives the same outcome with the record removed), and when
  no record of the bundle raises, the output is the results of the records before it
  followed by the results of the records after it, each in input order, without the
  absent ones.
\<close>

theorem process_resource_unknown_type:
  assumes rt: "map_of d ''resourceType'' = Some rt"
    and unk: "rt \<notin> set [VStr ''Patient'', VStr ''Observation'', VStr ''Procedure'',
                          VStr ''Condition'', VStr ''MedicationStatement'',
                          VStr ''MedicationOrder'', VStr ''MedicationAdministration'']"
    and conv: "fst (convert_datetimes time_finder_run (flatten d)) = Inr ()"
  shows "process_resource json_loads flatten time_finder_run (VDict d) = Inr None
     \<and> bundle_loop json_loads flatten time_finder_run (xs @ VDict d # ys)
         = bundle_loop json_loads flatten time_finder_run (xs @ ys)
     \<and> (list_all (\<lambda>x. \<not> isl (process_resource json_loads flatten time_finder_run x))
           (xs @ VDict d # ys) \<longrightarrow>
         bundle_loop json_loads flatten time_finder_run (xs @ VDict d # ys)
           = Inr (List.map_filter
                    (\<lambda>x. projr (process_resource json_loads flatten time_finder_run x)) xs
                  @ List.map_filter
                    (\<lambda>x. projr (process_resource json_loads flatten time_finder_run x)) ys))"
proof -
  have u: "process_resource json_loads flatten time_finder_run (VDict d) = Inr None"
    using rt unk conv by (rule process_resource_unknown)
  have skip: "bundle_loop json_loads flatten time_finder_run (xs @ VDict d # ys)
         = bundle_loop json_loads flatten time_finder_run (xs @ ys)"
    using u by (rule bundle_loop_skip)
  have "list_all (\<lambda>x. \<not> isl (process_resource json_loads flatten time_finder_run x))
           (xs @ VDict d # ys) \<longrightarrow>
         bundle_loop json_loads flatten time_finder_run (xs @ ys)
           = Inr (List.map_filter
                    (\<lambda>x. projr (process_resource json_loads flatten time_finder_run x)) xs
                  @ List.map_filter
                    (\<lambda>x. projr (process_resource json_loads flatten time_finder_run x)) ys)"
    by (simp add: bundle_loop_ordered map_filter_append)
  with u skip show ?thesis by simp
qed

theorem process_resource_unknown_type_witness:
  "process_resource example_json_loads example_flatten example_time_finder
      (VDict [(''resourceType'', VStr ''Unsupported''), (''issued'', VStr ''2021-02-03'')])
     = Inr None
   \<and> bundle_loop example_json_loads example_flatten example_time_finder
       [VDict [(''resourceType'', VStr ''Condition''), (''onsetDateTime'', VStr ''2019-01-01'')],
        VDict [(''resourceType'', VStr ''Unsupported''), (''issued'', VStr ''2021-02-03'')],
        VDict [(''resourceType'', VStr ''Procedure''), (''status'', VStr ''completed'')]]
     = Inr [[(''resourceType'', VStr ''Condition''),
             (''onsetDateTime'', VDateTime \<lparr>year = 2019, month = 1, day = 1, hour = 0,
                 minute = 0, second = 0, microsecond = 0, tzinfo = None\<rparr>),
             (''date_time'', VDateTime \<lparr>year = 2019, month = 1, day = 1, hour = 0,
                 minute = 0, second = 0, microsecond = 0, tzinfo = None\<rparr>)],
            [(''resourceType'', VStr ''Procedure''), (''status'', VStr ''completed'')]]"
proof -
  let ?c = "VDict [(''resourceType'', VStr ''Condition''), (''onsetDateTime'', VStr ''2019-01-01'')]"
  let ?d = "[(''resourceType'', VStr ''Unsupported''), (''issued'', VStr ''2021-02-03'')]"
  let ?p = "VDict [(''resourceType'', VStr ''Procedure''), (''status'', VStr ''completed'')]"
  have rt: "map_of ?d ''resourceType'' = Some (VStr ''Unsupported'')"
    by simp
  have unk: "VStr ''Unsupported'' \<notin> set [VStr ''Patient'', VStr ''Observation'', VStr ''Procedure'',
                          VStr ''Condition'', VStr ''MedicationStatement'',
                          VStr ''MedicationOrder'', VStr ''MedicationAdministration'']"
    by simp
  have conv: "fst (convert_datetimes example_time_finder (example_flatten ?d)) = Inr ()"
    by code_simp
  have ev1: "process_resource example_json_loads example_flatten example_time_finder ?c
     = Inr (Some [(''resourceType'', VStr ''Condition''),
                (''onsetDateTime'', VDateTime \<lparr>year = 2019, month = 1, day = 1, hour = 0,
                    minute = 0, second = 0, microsecond = 0, tzinfo = None\<rparr>),
                (''date_time'', VDateTime \<lparr>year = 2019, month = 1, day = 1, hour = 0,
                    minute = 0, second = 0, microsecond = 0, tzinfo = None\<rparr>)])"
    by code_simp
  have ev2: "process_resource example_json_loads example_flatten example_time_finder ?p
     = Inr (Some [(''resourceType'', VStr ''Procedure''), (''status'', VStr ''completed'')])"
    by code_simp
  from process_resource_unknown_type [where json_loads = example_json_loads
      and flatten = example_flatten and time_finder_run = example_time_finder
      and d = ?d and rt = "VStr ''Unsupported''" and xs = "[?c]" and ys = "[?p]",
      OF rt unk conv]
  show ?thesis
    by (simp add: ev1 ev2)
qed

end
